theory Spec2Isabelle
  imports Main "HOL-Library.Word" "HOL-Library.Signed_Division"
begin

section \<open>Machine integers of the target\<close>

text \<open>
  The sketch's header comment fixes the board: SPI on pins 11, 12 and 13, the two-wire
  bus on A4 and A5, and pin 10 forced to output for the SD card. That is the pin-out
  of the ATmega328 boards, where \<open>int\<close> has 16 bits and \<open>long\<close> has 32. Program
  variables of those types are words of that width, read as two's complement by
  \<open>sint\<close>. C++ leaves signed overflow undefined; the generated code for this target
  wraps around, and so does the model.
\<close>

type_synonym cint = "16 word"
type_synonym clong = "32 word"
type_synonym int16_t = "16 word"

text \<open>The operator \<open>/\<close> of C++ on \<open>int\<close>: the quotient is truncated towards zero.\<close>

definition int_div :: "cint \<Rightarrow> cint \<Rightarrow> cint" where
  "int_div a b = word_of_int (sint a sdiv sint b)"

section \<open>Constants of the sketch\<close>

definition PIN_BUTTON_SYNC :: cint where "PIN_BUTTON_SYNC = 7"
definition PIN_BUTTON_SLEEP :: cint where "PIN_BUTTON_SLEEP = 8"
definition PIN_LED_SYNC :: cint where "PIN_LED_SYNC = 5"
definition PIN_LED_SLEEP :: cint where "PIN_LED_SLEEP = 6"
definition PIN_LED_ACTIVE :: cint where "PIN_LED_ACTIVE = 3"

definition MODE_NONE :: cint where "MODE_NONE = 0"
definition MODE_SYNC :: cint where "MODE_SYNC = 1"
definition MODE_SLEEP :: cint where "MODE_SLEEP = 2"

definition REST :: cint where "REST = 500"

text \<open>The two pin levels of the Arduino core.\<close>

definition LOW :: cint where "LOW = 0"
definition HIGH :: cint where "HIGH = 1"

section \<open>State of the console-only sketch\<close>

text \<open>
  The global variables of the sketch that logs to the serial console (the variant
  with the accelerometer and the dummy \<open>resetDevice\<close>).
\<close>

record vars =
  mode :: cint
  prevSyncState :: cint
  prevSleepState :: cint
  AcStep :: cint
  AcCount :: cint
  AcTotal :: clong

text \<open>
  What the sketch does to the outside: pin writes, lines on the serial console and
  busy waits. The traffic on the two-wire bus is not recorded; it is represented by
  the sensor words it delivers.
\<close>

datatype event =
  DigitalWrite cint cint
| AnalogWrite cint cint
| SerialPrintln string
| Delay cint

text \<open>
  The machine is the global variables together with the history of outside effects,
  in program order. Every effect is stamped with the values the variables have at
  the moment of the call, so that the order of assignments and effects can be read
  off the history.
\<close>

record machine = vars +
  trace :: "(event \<times> vars) list"

definition emit :: "event \<Rightarrow> machine \<Rightarrow> machine" where
  "emit e s = s\<lparr>trace := trace s @ [(e, vars.truncate s)]\<rparr>"

definition digitalWrite :: "cint \<Rightarrow> cint \<Rightarrow> machine \<Rightarrow> machine" where
  "digitalWrite pin val s = emit (DigitalWrite pin val) s"

definition analogWrite :: "cint \<Rightarrow> cint \<Rightarrow> machine \<Rightarrow> machine" where
  "analogWrite pin val s = emit (AnalogWrite pin val) s"

definition Serial_println :: "string \<Rightarrow> machine \<Rightarrow> machine" where
  "Serial_println line s = emit (SerialPrintln line) s"

definition delay :: "cint \<Rightarrow> machine \<Rightarrow> machine" where
  "delay ms s = emit (Delay ms) s"

section \<open>Decimal text of a number\<close>

text \<open>
  \<open>String::operator+=\<close> of the Arduino core appends an \<open>int\<close> or a \<open>long\<close> in
  decimal, with a minus sign when negative.
\<close>

fun digits :: "nat \<Rightarrow> string" where
  "digits n =
     (if n < 10 then [''0123456789'' ! n]
      else digits (n div 10) @ [''0123456789'' ! (n mod 10)])"

declare digits.simps [simp del]

definition decimal :: "int \<Rightarrow> string" where
  "decimal i = (if i < 0 then CHR ''-'' # digits (nat (- i)) else digits (nat i))"

section \<open>The console-only sketch\<close>

text \<open>
  The variables as initialised at their declarations, and \<open>setup()\<close>. Of what
  \<open>setup()\<close> does (pin directions, serial port, waking the sensor) the history
  records the one pin write, which switches the activity output off.
\<close>

definition init :: machine where
  "init = \<lparr>mode = MODE_NONE, prevSyncState = LOW, prevSleepState = LOW,
           AcStep = 0, AcCount = 0, AcTotal = 0, trace = []\<rparr>"

definition initializePins :: "machine \<Rightarrow> machine" where
  "initializePins s = analogWrite PIN_LED_ACTIVE 0 s"

definition setup_sketch :: "machine \<Rightarrow> machine" where
  "setup_sketch s = initializePins s"

definition logData :: "string \<Rightarrow> machine \<Rightarrow> machine" where
  "logData message s =
     (let line = ''<log message='' @ [CHR 0x27];
          line = line @ (message @ [CHR 0x27] @ ''/>'')
      in Serial_println line s)"

text \<open>
  \<open>processSyncButton\<close>; the argument is the level \<open>digitalRead(PIN_BUTTON_SYNC)\<close>
  returns if the function reads the pin.
\<close>

definition processSyncButton :: "cint \<Rightarrow> machine \<Rightarrow> machine" where
  "processSyncButton pinLevel s =
     (if mode s = MODE_NONE \<or> mode s = MODE_SYNC then
        let syncState = pinLevel in
        if prevSyncState s = LOW \<and> syncState = HIGH then
          let s =
            (if mode s = MODE_NONE then
               logData ''LOG: Sync button was pressed, sync mode enabled''
                 (digitalWrite PIN_LED_SYNC HIGH (s\<lparr>mode := MODE_SYNC\<rparr>))
             else if mode s = MODE_SYNC then
               logData ''LOG: Sync button was pressed, sync mode disabled''
                 (digitalWrite PIN_LED_SYNC LOW (s\<lparr>mode := MODE_NONE\<rparr>))
             else s)
          in delay REST s
        else s
      else s)"

definition summariseSleepData :: "machine \<Rightarrow> string" where
  "summariseSleepData s =
     (let sleepData = ''SLEEP: duration='';
          sleepData = sleepData @ decimal (sint (AcCount s));
          sleepData = sleepData @ '', activity='';
          sleepData = sleepData @ decimal (sint (AcTotal s))
      in sleepData)"

text \<open>
  \<open>processSleepButton\<close>; the argument is the level \<open>digitalRead(PIN_BUTTON_SLEEP)\<close>
  returns if the function reads the pin.
\<close>

definition processSleepButton :: "cint \<Rightarrow> machine \<Rightarrow> machine" where
  "processSleepButton pinLevel s =
     (if mode s = MODE_NONE \<or> mode s = MODE_SLEEP then
        let sleepState = pinLevel in
        if prevSleepState s = LOW \<and> sleepState = HIGH then
          let s =
            (if mode s = MODE_NONE then
               let s = s\<lparr>mode := MODE_SLEEP\<rparr>;
                   s = s\<lparr>AcStep := 0\<rparr>;
                   s = s\<lparr>AcCount := 0\<rparr>;
                   s = s\<lparr>AcTotal := 0\<rparr>;
                   s = digitalWrite PIN_LED_SLEEP HIGH s
               in logData ''LOG: Sleep button was pressed, sleep mode enabled'' s
             else if mode s = MODE_SLEEP then
               let s = s\<lparr>mode := MODE_NONE\<rparr>;
                   s = digitalWrite PIN_LED_SLEEP LOW s;
                   s = analogWrite PIN_LED_ACTIVE 0 s;
                   s = logData ''LOG: Sleep button was pressed, sleep mode disabled'' s
               in logData (summariseSleepData s) s
             else s)
          in delay REST s
        else s
      else s)"

text \<open>
  \<open>processSleepData\<close>; the arguments are the first two of the seven words read from
  the sensor (X and Y acceleration). The other five are read and never used.
\<close>

definition processSleepData :: "int16_t \<Rightarrow> int16_t \<Rightarrow> machine \<Rightarrow> machine" where
  "processSleepData sensorX sensorY s =
     (let AcX = int_div sensorX 100;
          AcY = int_div sensorY 100;
          AcX = (if sint AcX < 0 then AcX * (- 1) else AcX);
          AcY = (if sint AcY < 0 then AcY * (- 1) else AcY);
          s = s\<lparr>AcCount := AcCount s + 1\<rparr>;
          s = s\<lparr>AcStep := int_div (AcX + AcY) 2\<rparr>;
          s = s\<lparr>AcTotal := AcTotal s + scast (AcStep s)\<rparr>;
          s = analogWrite PIN_LED_ACTIVE (AcStep s) s
      in delay REST s)"

definition sendData :: "machine \<Rightarrow> machine" where
  "sendData s =
     (let s = Serial_println ''<log message='Sending sleep data'/>'' s;
          s = Serial_println ''<cmd name='data'>'' s;
          s = Serial_println (summariseSleepData s) s
      in Serial_println ''</cmd>'' s)"

text \<open>The dummy of the console-only sketch.\<close>

definition resetDevice :: "machine \<Rightarrow> machine" where
  "resetDevice s = s"

definition idle :: "cint \<Rightarrow> cint \<Rightarrow> machine \<Rightarrow> machine" where
  "idle syncLevel sleepLevel s = processSleepButton sleepLevel (processSyncButton syncLevel s)"

text \<open>
  \<open>sync\<close>; the second argument is \<open>None\<close> when \<open>Serial.available()\<close> is not positive
  and otherwise the byte \<open>Serial.read()\<close> returns.
\<close>

definition sync :: "cint \<Rightarrow> char option \<Rightarrow> machine \<Rightarrow> machine" where
  "sync syncLevel serialIn s =
     (let s = processSyncButton syncLevel s in
      case serialIn of
        None \<Rightarrow> s
      | Some character \<Rightarrow>
          if character = CHR ''D'' then
            sendData (Serial_println ''<log message='Received: Read data'>'' s)
          else if character = CHR ''R'' then
            resetDevice (Serial_println ''<log message='Received: Reset device'>'' s)
          else s)"

definition sleep :: "cint \<Rightarrow> int16_t \<Rightarrow> int16_t \<Rightarrow> machine \<Rightarrow> machine" where
  "sleep sleepLevel sensorX sensorY s =
     processSleepData sensorX sensorY (processSleepButton sleepLevel s)"

text \<open>What one pass of \<open>loop\<close> can read from the outside.\<close>

record inputs =
  syncPin :: cint
  sleepPin :: cint
  serialByte :: "char option"
  accelX :: int16_t
  accelY :: int16_t

definition loop :: "inputs \<Rightarrow> machine \<Rightarrow> machine" where
  "loop i s =
     (if mode s = MODE_NONE then idle (syncPin i) (sleepPin i) s
      else if mode s = MODE_SYNC then sync (syncPin i) (serialByte i) s
      else if mode s = MODE_SLEEP then sleep (sleepPin i) (accelX i) (accelY i) s
      else s)"

text \<open>The sketch runs \<open>setup()\<close> once and then \<open>loop\<close> for ever; a run is a finite prefix.\<close>

definition run :: "inputs list \<Rightarrow> machine" where
  "run ins = fold loop ins (setup_sketch init)"

text \<open>The lines the sketch has printed on the serial console, oldest first.\<close>

fun printed :: "event \<Rightarrow> string list" where
  "printed (SerialPrintln line) = [line]"
| "printed _ = []"

definition console :: "machine \<Rightarrow> string list" where
  "console s = concat (map (printed \<circ> fst) (trace s))"

text \<open>Repeated calls of \<open>processSleepData\<close>, one per pair of sensor words.\<close>

fun samples :: "(int16_t \<times> int16_t) list \<Rightarrow> machine \<Rightarrow> machine" where
  "samples [] s = s"
| "samples ((x, y) # ps) s = samples ps (processSleepData x y s)"

section \<open>The sketch that logs to the SD card\<close>

text \<open>
  The variant \<open>pet-health.ino\<close> keeps the mode controller and writes its log to the
  file \<open>LOG.TXT\<close>. It has no accumulator: its \<open>processSleepData\<close> is empty.
\<close>

definition LOG_FILE :: string where "LOG_FILE = ''LOG.TXT''"

datatype event_sd =
  DigitalWrite_sd cint cint
| SerialPrintln_sd string
| SerialWrite_sd "8 word"
| FilePrintln_sd string string
| Remove_sd string
| Delay_sd cint

record machine_sd =
  mode_sd :: cint
  prevSyncState_sd :: cint
  prevSleepState_sd :: cint
  trace_sd :: "event_sd list"

text \<open>
  What the SD library answers during one pass: whether \<open>SD.open(LOG_FILE, FILE_WRITE)\<close>
  yields a file, the bytes of the file \<open>SD.open(LOG_FILE, FILE_READ)\<close> yields (\<open>None\<close>
  when it yields none), and the result of \<open>SD.remove(LOG_FILE)\<close>.
\<close>

record card =
  openWrite :: bool
  openRead :: "8 word list option"
  removed :: bool

definition emit_sd :: "event_sd \<Rightarrow> machine_sd \<Rightarrow> machine_sd" where
  "emit_sd e s = s\<lparr>trace_sd := trace_sd s @ [e]\<rparr>"

definition logData_sd :: "card \<Rightarrow> string \<Rightarrow> machine_sd \<Rightarrow> machine_sd" where
  "logData_sd c message s =
     (if openWrite c then
        emit_sd (SerialPrintln_sd ''<log message='Writing message to SD card'/>'')
          (emit_sd (FilePrintln_sd LOG_FILE message) s)
      else emit_sd (SerialPrintln_sd ''<log message='Error opening LOG.TXT...'/>'') s)"

definition processSyncButton_sd :: "card \<Rightarrow> cint \<Rightarrow> machine_sd \<Rightarrow> machine_sd" where
  "processSyncButton_sd c pinLevel s =
     (if mode_sd s = MODE_NONE \<or> mode_sd s = MODE_SYNC then
        let syncState = pinLevel in
        if prevSyncState_sd s = LOW \<and> syncState = HIGH then
          let s =
            (if mode_sd s = MODE_NONE then
               logData_sd c ''LOG: Sync button was pressed, sync mode enabled''
                 (emit_sd (DigitalWrite_sd PIN_LED_SYNC HIGH) (s\<lparr>mode_sd := MODE_SYNC\<rparr>))
             else if mode_sd s = MODE_SYNC then
               logData_sd c ''LOG: Sync button was pressed, sync mode disabled''
                 (emit_sd (DigitalWrite_sd PIN_LED_SYNC LOW) (s\<lparr>mode_sd := MODE_NONE\<rparr>))
             else s)
          in emit_sd (Delay_sd REST) s
        else s
      else s)"

definition processSleepButton_sd :: "card \<Rightarrow> cint \<Rightarrow> machine_sd \<Rightarrow> machine_sd" where
  "processSleepButton_sd c pinLevel s =
     (if mode_sd s = MODE_NONE \<or> mode_sd s = MODE_SLEEP then
        let sleepState = pinLevel in
        if prevSleepState_sd s = LOW \<and> sleepState = HIGH then
          let s =
            (if mode_sd s = MODE_NONE then
               logData_sd c ''LOG: Sleep button was pressed, sleep mode enabled''
                 (emit_sd (DigitalWrite_sd PIN_LED_SLEEP HIGH) (s\<lparr>mode_sd := MODE_SLEEP\<rparr>))
             else if mode_sd s = MODE_SLEEP then
               logData_sd c ''LOG: Sleep button was pressed, sleep mode disabled''
                 (emit_sd (DigitalWrite_sd PIN_LED_SLEEP LOW) (s\<lparr>mode_sd := MODE_NONE\<rparr>))
             else s)
          in emit_sd (Delay_sd REST) s
        else s
      else s)"

text \<open>
  \<open>sendData\<close> copies the file to the console byte by byte and stops at the end of
  the file or at the first byte that is not positive.
\<close>

definition sendData_sd :: "card \<Rightarrow> machine_sd \<Rightarrow> machine_sd" where
  "sendData_sd c s =
     (let s = emit_sd (SerialPrintln_sd ''<log message='Sending SD card data'/>'') s in
      case openRead c of
        Some bytes \<Rightarrow>
          let s = emit_sd (SerialPrintln_sd ''<cmd name='data'>'') s;
              s = fold (\<lambda>data. emit_sd (SerialWrite_sd data)) (takeWhile (\<lambda>data. data \<noteq> 0) bytes) s
          in emit_sd (SerialPrintln_sd ''</cmd>'') s
      | None \<Rightarrow> emit_sd (SerialPrintln_sd ''<log message='Error opening LOG.TXT...'/>'') s)"

definition resetDevice_sd :: "card \<Rightarrow> machine_sd \<Rightarrow> machine_sd" where
  "resetDevice_sd c s =
     (let s = emit_sd (SerialPrintln_sd ''<log message='Reset SD card data'/>'') s;
          s = emit_sd (Remove_sd LOG_FILE) s
      in if \<not> removed c
         then emit_sd (SerialPrintln_sd ''<log message='Error deleting LOG.TXT...'/>'') s
         else s)"

definition sync_sd :: "card \<Rightarrow> cint \<Rightarrow> char option \<Rightarrow> machine_sd \<Rightarrow> machine_sd" where
  "sync_sd c syncLevel serialIn s =
     (let s = processSyncButton_sd c syncLevel s in
      case serialIn of
        None \<Rightarrow> s
      | Some character \<Rightarrow>
          if character = CHR ''D'' then
            sendData_sd c (emit_sd (SerialPrintln_sd ''<log message='Received: Read data'>'') s)
          else if character = CHR ''R'' then
            resetDevice_sd c
              (emit_sd (SerialPrintln_sd ''<log message='Received: Reset device'>'') s)
          else s)"

definition init_sd :: machine_sd where
  "init_sd = \<lparr>mode_sd = MODE_NONE, prevSyncState_sd = LOW, prevSleepState_sd = LOW,
              trace_sd = []\<rparr>"

section \<open>Notions used in the statements\<close>

text \<open>The three values the mode controller knows.\<close>

definition valid_mode :: "cint \<Rightarrow> bool" where
  "valid_mode m \<longleftrightarrow> m = MODE_NONE \<or> m = MODE_SYNC \<or> m = MODE_SLEEP"

text \<open>
  The reduction of one sample in the words of the specification: divide X and Y by
  100, take the absolute value of each, average the two, all in integer arithmetic
  that truncates.
\<close>

definition step_of :: "int \<Rightarrow> int \<Rightarrow> int" where
  "step_of X Y = (\<bar>X sdiv 100\<bar> + \<bar>Y sdiv 100\<bar>) div 2"

text \<open>The per-sample steps of a sequence of sensor readings.\<close>

definition steps :: "(int16_t \<times> int16_t) list \<Rightarrow> int list" where
  "steps ps = map (\<lambda>(x, y). step_of (sint x) (sint y)) ps"

text \<open>
  The normalisation \<open>processSleepData\<close> applies to one sensor word (divide by 100,
  negate if negative), named for the proofs.
\<close>

definition magnitude :: "int16_t \<Rightarrow> cint" where
  "magnitude w = (let q = int_div w 100 in if sint q < 0 then q * (- 1) else q)"

section \<open>The mode controller keeps to its three modes\<close>

lemmas pin_defs =
  PIN_BUTTON_SYNC_def PIN_BUTTON_SLEEP_def PIN_LED_SYNC_def PIN_LED_SLEEP_def
  PIN_LED_ACTIVE_def

lemmas mode_defs = MODE_NONE_def MODE_SYNC_def MODE_SLEEP_def

lemmas level_defs = LOW_def HIGH_def

lemmas io_defs = emit_def digitalWrite_def analogWrite_def Serial_println_def delay_def logData_def

lemma mode_distinct: "MODE_NONE \<noteq> MODE_SYNC" "MODE_SYNC \<noteq> MODE_SLEEP" "MODE_NONE \<noteq> MODE_SLEEP"
  "MODE_SYNC \<noteq> MODE_NONE" "MODE_SLEEP \<noteq> MODE_SYNC" "MODE_SLEEP \<noteq> MODE_NONE"
  by (simp_all add: mode_defs)

lemma mode_processSyncButton:
  "mode (processSyncButton l s) =
     (if prevSyncState s = LOW \<and> l = HIGH then
        (if mode s = MODE_NONE then MODE_SYNC else if mode s = MODE_SYNC then MODE_NONE else mode s)
      else mode s)"
  by (simp add: processSyncButton_def io_defs Let_def mode_distinct)

lemma mode_processSleepButton:
  "mode (processSleepButton l s) =
     (if prevSleepState s = LOW \<and> l = HIGH then
        (if mode s = MODE_NONE then MODE_SLEEP else if mode s = MODE_SLEEP then MODE_NONE else mode s)
      else mode s)"
  by (simp add: processSleepButton_def io_defs Let_def mode_distinct)

lemma mode_processSleepData: "mode (processSleepData x y s) = mode s"
  by (simp add: processSleepData_def io_defs Let_def)

lemma mode_sendData: "mode (sendData s) = mode s"
  by (simp add: sendData_def io_defs Let_def)

lemma mode_sync: "mode (sync l b s) = mode (processSyncButton l s)"
  by (simp add: sync_def resetDevice_def mode_sendData Serial_println_def emit_def Let_def split: option.split)

lemma valid_mode_loop: "valid_mode (mode s) \<Longrightarrow> valid_mode (mode (loop i s))"
  by (auto simp add: loop_def idle_def sleep_def mode_sync mode_processSyncButton
      mode_processSleepButton mode_processSleepData valid_mode_def mode_distinct)

lemma run_snoc: "run (ins @ [i]) = loop i (run ins)"
  by (simp add: run_def)

lemma mode_init: "mode (setup_sketch init) = MODE_NONE"
  by (simp add: setup_sketch_def initializePins_def init_def io_defs)

lemma valid_mode_run: "valid_mode (mode (run ins))"
proof (induction ins rule: rev_induct)
  case Nil
  show ?case by (simp add: run_def mode_init valid_mode_def)
next
  case (snoc i ins)
  then show ?case by (simp add: run_snoc valid_mode_loop)
qed

lemma processSyncButton_in_sleep: "mode s = MODE_SLEEP \<Longrightarrow> processSyncButton l s = s"
  by (simp add: processSyncButton_def mode_distinct)

lemma processSleepButton_in_sync: "mode s = MODE_SYNC \<Longrightarrow> processSleepButton l s = s"
  by (simp add: processSleepButton_def mode_distinct)

section \<open>Arithmetic of one sample\<close>

lemma sint16_range: "- 32768 \<le> sint (w :: 16 word) \<and> sint w \<le> 32767"
  using sint_ge [of w] sint_lt [of w] by simp

lemma sdiv100_range:
  fixes a :: int
  assumes "- 32768 \<le> a" "a \<le> 32767"
  shows "- 327 \<le> a sdiv 100 \<and> a sdiv 100 \<le> 327"
proof (cases "0 \<le> a")
  case True
  then have "a sdiv 100 = a div 100" by (simp add: signed_divide_int_def sgn_if)
  with assms True show ?thesis by arith
next
  case False
  then have "a sdiv 100 = - ((- a) div 100)" by (simp add: signed_divide_int_def sgn_if)
  with assms False show ?thesis by arith
qed

lemma sint_word_of_int16:
  "- 32768 \<le> k \<Longrightarrow> k \<le> 32767 \<Longrightarrow> sint (word_of_int k :: 16 word) = k"
  by (simp add: sint_sbintrunc' signed_take_bit_int_eq_self)

lemma sint_int_div_100:
  "sint (int_div w 100) = sint w sdiv 100"
proof -
  have "- 327 \<le> sint w sdiv 100 \<and> sint w sdiv 100 \<le> 327"
    using sint16_range [of w] by (intro sdiv100_range) simp_all
  then show ?thesis by (simp add: int_div_def sint_word_of_int16)
qed

lemma sint_magnitude: "sint (magnitude w) = \<bar>sint w sdiv 100\<bar>"
proof -
  let ?q = "sint w sdiv 100"
  have r: "- 327 \<le> ?q \<and> ?q \<le> 327"
    using sint16_range [of w] by (intro sdiv100_range) simp_all
  have "sint (- int_div w 100) = - ?q"
    using r by (simp add: sint_word_minus sint_int_div_100 signed_take_bit_int_eq_self)
  then show ?thesis
    by (simp add: magnitude_def Let_def sint_int_div_100)
qed

lemma sint_half_sum:
  fixes a b :: "16 word"
  assumes "0 \<le> sint a" "sint a \<le> 327" "0 \<le> sint b" "sint b \<le> 327"
  shows "sint (int_div (a + b) 2) = (sint a + sint b) div 2"
proof -
  have s: "sint (a + b) = sint a + sint b"
    using assms by (simp add: sint_word_add signed_take_bit_int_eq_self)
  have "(sint a + sint b) sdiv 2 = (sint a + sint b) div 2"
    using assms by (simp add: signed_divide_int_def sgn_if)
  moreover have "- 32768 \<le> (sint a + sint b) div 2 \<and> (sint a + sint b) div 2 \<le> 32767"
    using assms by arith
  ultimately show ?thesis
    by (simp add: int_div_def s sint_word_of_int16)
qed

lemma AcStep_processSleepData:
  "AcStep (processSleepData x y s) = int_div (magnitude x + magnitude y) 2"
  by (simp add: processSleepData_def magnitude_def io_defs Let_def)

lemma step_of_range:
  assumes "- 32768 \<le> a" "a \<le> 32767" "- 32768 \<le> b" "b \<le> 32767"
  shows "0 \<le> step_of a b \<and> step_of a b \<le> 327"
  using sdiv100_range [OF assms(1,2)] sdiv100_range [OF assms(3,4)]
  unfolding step_of_def by arith

lemma sint_AcStep:
  "sint (AcStep (processSleepData x y s)) = step_of (sint x) (sint y)"
proof -
  have rx: "0 \<le> sint (magnitude x) \<and> sint (magnitude x) \<le> 327"
    using sdiv100_range [of "sint x"] sint16_range [of x] unfolding sint_magnitude by arith
  have ry: "0 \<le> sint (magnitude y) \<and> sint (magnitude y) \<le> 327"
    using sdiv100_range [of "sint y"] sint16_range [of y] unfolding sint_magnitude by arith
  show ?thesis
    using rx ry by (simp add: AcStep_processSleepData sint_half_sum step_of_def sint_magnitude)
qed

section \<open>The accumulator over a session\<close>

lemma samples_append: "samples (ps @ qs) s = samples qs (samples ps s)"
  by (induction ps arbitrary: s) auto

lemma AcCount_processSleepData: "AcCount (processSleepData x y s) = AcCount s + 1"
  by (simp add: processSleepData_def io_defs Let_def)

lemma AcTotal_processSleepData:
  "AcTotal (processSleepData x y s) = AcTotal s + scast (AcStep (processSleepData x y s))"
  by (simp add: processSleepData_def io_defs Let_def)

lemma sint_succ16:
  fixes w :: "16 word"
  assumes "sint w < 32767"
  shows "sint (w + 1) = sint w + 1"
  using assms sint16_range [of w]
  by (simp add: sint_word_add signed_take_bit_int_eq_self)

lemma sint_scast_16_32: "sint (scast (w :: 16 word) :: 32 word) = sint w"
  by (simp add: sint_up_scast is_up)

lemma sint_add_step32:
  fixes t :: "32 word" and w :: "16 word"
  assumes "0 \<le> sint t" "sint t \<le> 327 * 32767" "0 \<le> sint w" "sint w \<le> 327"
  shows "sint (t + scast w) = sint t + sint w"
  using assms
  by (simp add: sint_word_add sint_scast_16_32 signed_take_bit_int_eq_self)

lemma steps_bounds: "0 \<le> sum_list (steps ps) \<and> sum_list (steps ps) \<le> 327 * int (length ps)"
proof (induction ps)
  case Nil
  show ?case by (simp add: steps_def)
next
  case (Cons p ps)
  obtain x y where p: "p = (x, y)" by (cases p)
  have "0 \<le> step_of (sint x) (sint y) \<and> step_of (sint x) (sint y) \<le> 327"
    using sint16_range [of x] sint16_range [of y] by (intro step_of_range) simp_all
  with Cons show ?case by (simp add: steps_def p)
qed

lemma samples_totals:
  assumes "AcCount s = 0" "AcTotal s = 0"
  shows "length ps \<le> 32767 \<Longrightarrow>
         sint (AcCount (samples ps s)) = int (length ps) \<and>
         sint (AcTotal (samples ps s)) = sum_list (steps ps)"
proof (induction ps rule: rev_induct)
  case Nil
  show ?case using assms by (simp add: steps_def)
next
  case (snoc p ps)
  obtain x y where p: "p = (x, y)" by (cases p)
  let ?s = "samples ps s"
  from snoc have len: "length ps < 32767" by simp
  with snoc have c: "sint (AcCount ?s) = int (length ps)"
    and t: "sint (AcTotal ?s) = sum_list (steps ps)" by simp_all
  have st: "0 \<le> step_of (sint x) (sint y) \<and> step_of (sint x) (sint y) \<le> 327"
    using sint16_range [of x] sint16_range [of y] by (intro step_of_range) simp_all
  have tb: "0 \<le> sint (AcTotal ?s) \<and> sint (AcTotal ?s) \<le> 327 * 32767"
    using steps_bounds [of ps] len unfolding t by simp
  have "sint (AcCount (processSleepData x y ?s)) = int (length ps) + 1"
    using c len by (simp add: AcCount_processSleepData sint_succ16)
  moreover have "sint (AcTotal (processSleepData x y ?s))
      = sum_list (steps ps) + step_of (sint x) (sint y)"
    using tb st unfolding AcTotal_processSleepData
    by (simp add: sint_add_step32 sint_AcStep t)
  ultimately show ?case
    by (simp add: samples_append p steps_def)
qed

lemma level_distinct: "HIGH \<noteq> LOW" "LOW \<noteq> HIGH"
  by (simp_all add: level_defs)

section \<open>Frame and output lemmas\<close>

lemma prevSyncState_processSyncButton [simp]:
  "prevSyncState (processSyncButton l s) = prevSyncState s"
  by (simp add: processSyncButton_def io_defs Let_def)

lemma prevSleepState_processSleepButton [simp]:
  "prevSleepState (processSleepButton l s) = prevSleepState s"
  by (simp add: processSleepButton_def io_defs Let_def)

lemma console_append_trace [simp]:
  "console (s\<lparr>trace := trace s @ es\<rparr>) = console s @ concat (map (printed \<circ> fst) es)"
  by (simp add: console_def)

lemma processSyncButton_LOW [simp]: "processSyncButton LOW s = s"
  by (simp add: processSyncButton_def level_distinct)

lemma processSleepButton_LOW [simp]: "processSleepButton LOW s = s"
  by (simp add: processSleepButton_def level_distinct)

lemma summariseSleepData_cong:
  "AcCount t = AcCount s \<Longrightarrow> AcTotal t = AcTotal s \<Longrightarrow> summariseSleepData t = summariseSleepData s"
  by (simp add: summariseSleepData_def)

lemma AcCount_processSyncButton [simp]: "AcCount (processSyncButton l s) = AcCount s"
  by (simp add: processSyncButton_def io_defs Let_def)

lemma AcTotal_processSyncButton [simp]: "AcTotal (processSyncButton l s) = AcTotal s"
  by (simp add: processSyncButton_def io_defs Let_def)

lemma trace_sendData:
  "map fst (trace (sendData s)) = map fst (trace s) @
     [SerialPrintln ''<log message='Sending sleep data'/>'',
      SerialPrintln ''<cmd name='data'>'',
      SerialPrintln (summariseSleepData s),
      SerialPrintln ''</cmd>'']"
  by (simp add: sendData_def io_defs Let_def summariseSleepData_def)

lemma vars_sendData: "vars.truncate (sendData s) = vars.truncate s"
  by (simp add: sendData_def io_defs Let_def vars.truncate_def)

lemma accumulator_frame:
  "mode s = MODE_SLEEP \<Longrightarrow>
     AcCount (processSleepButton l s) = AcCount s \<and> AcTotal (processSleepButton l s) = AcTotal s"
  "AcCount (processSyncButton l s) = AcCount s \<and> AcTotal (processSyncButton l s) = AcTotal s"
  "AcCount (sendData s) = AcCount s \<and> AcTotal (sendData s) = AcTotal s"
  "AcCount (sync l b s) = AcCount s \<and> AcTotal (sync l b s) = AcTotal s"
  by (simp_all add: processSleepButton_def sendData_def sync_def resetDevice_def io_defs Let_def
      mode_distinct split: option.split)

text \<open>Passes of \<open>loop\<close> during a session in which the sleep button stays low.\<close>

lemma loop_in_sleep_quiet:
  assumes "mode s = MODE_SLEEP" and "sleepPin i = LOW"
  shows "loop i s = processSleepData (accelX i) (accelY i) s"
  using assms by (simp add: loop_def sleep_def mode_distinct)

lemma fold_loop_quiet:
  assumes "sleepPin i = LOW"
  shows "mode s = MODE_SLEEP \<Longrightarrow>
         mode (fold loop (replicate n i) s) = MODE_SLEEP \<and>
         AcCount (fold loop (replicate n i) s) = AcCount s + of_nat n"
proof (induction n arbitrary: s)
  case 0
  then show ?case by simp
next
  case (Suc n)
  let ?t = "processSleepData (accelX i) (accelY i) s"
  have "mode ?t = MODE_SLEEP" using Suc.prems by (simp add: mode_processSleepData)
  from Suc.IH [OF this] show ?case
    using Suc.prems assms
    by (simp add: loop_in_sleep_quiet AcCount_processSleepData)
qed

text \<open>The running total of the steps never decreases.\<close>

lemma steps_append: "steps (ps @ qs) = steps ps @ steps qs"
  by (simp add: steps_def)

lemma steps_take_mono:
  assumes "j \<le> k"
  shows "sum_list (steps (take j ps)) \<le> sum_list (steps (take k ps))"
proof -
  have "take k ps = take j ps @ take (k - j) (drop j ps)"
    using assms by (metis le_add_diff_inverse take_add)
  then have "sum_list (steps (take k ps))
      = sum_list (steps (take j ps)) + sum_list (steps (take (k - j) (drop j ps)))"
    by (simp add: steps_append)
  with steps_bounds [of "take (k - j) (drop j ps)"] show ?thesis by simp
qed

section \<open>Claims\<close>

text \<open>
  C1. In every state the sketch reaches from \<open>setup()\<close> by passes of \<open>loop()\<close>,
  whatever the buttons, the console and the sensor deliver, \<open>mode\<close> is one of the
  three distinct values \<open>MODE_NONE\<close>, \<open>MODE_SYNC\<close>, \<open>MODE_SLEEP\<close>, hence never
  Sync and Sleep at once. Polling the sync button while the mode is Sleep leaves the
  whole machine as it is (no mode change, nothing printed), also when the level read
  would be a rising edge, and a pass of \<open>loop()\<close> in Sleep mode does not depend on
  the level of the sync button at all; likewise for the sleep button while the mode
  is Sync.
\<close>

theorem mode_mutual_exclusion:
  "valid_mode (mode (run ins))
   \<and> MODE_NONE \<noteq> MODE_SYNC \<and> MODE_NONE \<noteq> MODE_SLEEP \<and> MODE_SYNC \<noteq> MODE_SLEEP
   \<and> \<not> (mode (run ins) = MODE_SYNC \<and> mode (run ins) = MODE_SLEEP)
   \<and> (mode sa = MODE_SLEEP \<longrightarrow>
        processSyncButton la sa = sa \<and> loop (ia\<lparr>syncPin := la\<rparr>) sa = loop ia sa)
   \<and> (mode sb = MODE_SYNC \<longrightarrow>
        processSleepButton lb sb = sb \<and> loop (ib\<lparr>sleepPin := lb\<rparr>) sb = loop ib sb)"
proof -
  have "mode sa = MODE_SLEEP \<longrightarrow> loop (ia\<lparr>syncPin := la\<rparr>) sa = loop ia sa"
    by (simp add: loop_def mode_distinct)
  moreover have "mode sb = MODE_SYNC \<longrightarrow> loop (ib\<lparr>sleepPin := lb\<rparr>) sb = loop ib sb"
    by (simp add: loop_def mode_distinct)
  ultimately show ?thesis
    by (simp add: valid_mode_run mode_distinct processSyncButton_in_sleep
        processSleepButton_in_sync)
qed

text \<open>
  The two guards at work: after one press of the sleep button a high sync button is
  ignored, and after one press of the sync button a high sleep button is ignored.
\<close>

theorem mode_mutual_exclusion_witness:
  "mode (run [\<lparr>syncPin = LOW, sleepPin = HIGH, serialByte = None, accelX = 0, accelY = 0\<rparr>])
     = MODE_SLEEP
   \<and> prevSyncState (run [\<lparr>syncPin = LOW, sleepPin = HIGH, serialByte = None, accelX = 0, accelY = 0\<rparr>])
     = LOW
   \<and> processSyncButton HIGH
       (run [\<lparr>syncPin = LOW, sleepPin = HIGH, serialByte = None, accelX = 0, accelY = 0\<rparr>])
     = run [\<lparr>syncPin = LOW, sleepPin = HIGH, serialByte = None, accelX = 0, accelY = 0\<rparr>]
   \<and> mode (run [\<lparr>syncPin = HIGH, sleepPin = LOW, serialByte = None, accelX = 0, accelY = 0\<rparr>])
     = MODE_SYNC
   \<and> prevSleepState (run [\<lparr>syncPin = HIGH, sleepPin = LOW, serialByte = None, accelX = 0, accelY = 0\<rparr>])
     = LOW
   \<and> processSleepButton HIGH
       (run [\<lparr>syncPin = HIGH, sleepPin = LOW, serialByte = None, accelX = 0, accelY = 0\<rparr>])
     = run [\<lparr>syncPin = HIGH, sleepPin = LOW, serialByte = None, accelX = 0, accelY = 0\<rparr>]"
proof -
  let ?a = "run [\<lparr>syncPin = LOW, sleepPin = HIGH, serialByte = None, accelX = 0, accelY = 0\<rparr>]"
  let ?b = "run [\<lparr>syncPin = HIGH, sleepPin = LOW, serialByte = None, accelX = 0, accelY = 0\<rparr>]"
  have a: "mode ?a = MODE_SLEEP" by code_simp
  have b: "mode ?b = MODE_SYNC" by code_simp
  have pa: "prevSyncState ?a = LOW" by code_simp
  have pb: "prevSleepState ?b = LOW" by code_simp
  show ?thesis
    using mode_mutual_exclusion [where sa = ?a and la = HIGH and sb = ?b and lb = HIGH] a b pa pb
    by simp
qed

text \<open>
  C2. The claim is that each poll stores the level it has read in \<open>prevSyncState\<close>
  (\<open>prevSleepState\<close>), so that only a genuine change from low to high fires. The
  sketch compares with the stored level and never assigns it. Evaluated from the
  initial state with the button read high: the stored level is still low after the
  poll; a second poll with the button still high fires again and switches the mode
  back, printing both log lines. The same holds for the sleep button and for the
  sketch that logs to the SD card.
\<close>

theorem previous_level_never_stored:
  "prevSyncState (processSyncButton HIGH (setup_sketch init)) = LOW
   \<and> mode (processSyncButton HIGH (setup_sketch init)) = MODE_SYNC
   \<and> mode (processSyncButton HIGH (processSyncButton HIGH (setup_sketch init))) = MODE_NONE
   \<and> console (processSyncButton HIGH (processSyncButton HIGH (setup_sketch init))) =
       [''<log message='LOG: Sync button was pressed, sync mode enabled'/>'',
        ''<log message='LOG: Sync button was pressed, sync mode disabled'/>'']
   \<and> prevSleepState (processSleepButton HIGH (setup_sketch init)) = LOW
   \<and> mode (processSleepButton HIGH (processSleepButton HIGH (setup_sketch init))) = MODE_NONE
   \<and> prevSyncState_sd
        (processSyncButton_sd \<lparr>openWrite = True, openRead = None, removed = True\<rparr> HIGH init_sd) = LOW
   \<and> mode_sd
        (processSyncButton_sd \<lparr>openWrite = True, openRead = None, removed = True\<rparr> HIGH
          (processSyncButton_sd \<lparr>openWrite = True, openRead = None, removed = True\<rparr> HIGH init_sd))
       = MODE_NONE
   \<and> LOW \<noteq> HIGH"
  by code_simp

text \<open>
  C3, amended by a bound: in a session that starts with the counters at zero and
  takes at most 32767 samples, after the samples \<open>ps\<close> the counter \<open>AcCount\<close> is their
  number and \<open>AcTotal\<close> is the sum of their steps, where the step of a sample is
  \<open>(|X/100| + |Y/100|)/2\<close> in truncating integer arithmetic; both are non-negative
  and never decrease from one prefix of the session to a longer one. The pairs
  (200,100), (300,100), (100,100) give the steps 1, 2, 1 and, taken right after
  Sleep mode is entered from the initial state, the summary
  \<open>SLEEP: duration=3, activity=4\<close>.
\<close>

theorem session_totals:
  assumes "AcCount s = 0" and "AcTotal s = 0" and "length ps \<le> 32767"
  shows "sint (AcCount (samples ps s)) = int (length ps)
         \<and> sint (AcTotal (samples ps s)) = sum_list (steps ps)
         \<and> (\<forall>j k. j \<le> k \<and> k \<le> length ps \<longrightarrow>
               0 \<le> sint (AcCount (samples (take j ps) s))
               \<and> sint (AcCount (samples (take j ps) s)) \<le> sint (AcCount (samples (take k ps) s))
               \<and> 0 \<le> sint (AcTotal (samples (take j ps) s))
               \<and> sint (AcTotal (samples (take j ps) s)) \<le> sint (AcTotal (samples (take k ps) s)))
         \<and> sint (AcStep (processSleepData x y t)) = step_of (sint x) (sint y)
         \<and> steps [(200, 100), (300, 100), (100, 100)] = [1, 2, 1]
         \<and> summariseSleepData
               (samples [(200, 100), (300, 100), (100, 100)]
                  (processSleepButton HIGH (setup_sketch init)))
             = ''SLEEP: duration=3, activity=4''"
proof -
  have pre: "sint (AcCount (samples (take n ps) s)) = int (min (length ps) n)
      \<and> sint (AcTotal (samples (take n ps) s)) = sum_list (steps (take n ps))" for n
    using samples_totals [OF assms(1,2), of "take n ps"] assms(3) by simp
  have mono: "\<forall>j k. j \<le> k \<and> k \<le> length ps \<longrightarrow>
               0 \<le> sint (AcCount (samples (take j ps) s))
               \<and> sint (AcCount (samples (take j ps) s)) \<le> sint (AcCount (samples (take k ps) s))
               \<and> 0 \<le> sint (AcTotal (samples (take j ps) s))
               \<and> sint (AcTotal (samples (take j ps) s)) \<le> sint (AcTotal (samples (take k ps) s))"
  proof (intro allI impI)
    fix j k
    assume jk: "j \<le> k \<and> k \<le> length ps"
    show "0 \<le> sint (AcCount (samples (take j ps) s))
               \<and> sint (AcCount (samples (take j ps) s)) \<le> sint (AcCount (samples (take k ps) s))
               \<and> 0 \<le> sint (AcTotal (samples (take j ps) s))
               \<and> sint (AcTotal (samples (take j ps) s)) \<le> sint (AcTotal (samples (take k ps) s))"
      using jk steps_take_mono [of j k ps] steps_bounds [of "take j ps"]
      by (simp add: pre)
  qed
  have sc1: "steps [(200, 100), (300, 100), (100, 100)] = [1, 2, 1]"
    by (simp add: steps_def step_of_def)
  have sc2: "summariseSleepData
               (samples [(200, 100), (300, 100), (100, 100)]
                  (processSleepButton HIGH (setup_sketch init)))
             = ''SLEEP: duration=3, activity=4''"
    by code_simp
  show ?thesis
    using samples_totals [OF assms(1,2), of ps] assms(3) mono sc1 sc2
    by (simp add: sint_AcStep)
qed

text \<open>The session of the three samples satisfies the bound and counts 3 and 4.\<close>

theorem session_totals_witness:
  "AcCount (processSleepButton HIGH (setup_sketch init)) = 0
   \<and> AcTotal (processSleepButton HIGH (setup_sketch init)) = 0
   \<and> length [(200, 100), (300, 100), (100 :: int16_t, 100 :: int16_t)] \<le> 32767
   \<and> sint (AcCount (samples [(200, 100), (300, 100), (100, 100)]
                      (processSleepButton HIGH (setup_sketch init)))) = 3
   \<and> sint (AcTotal (samples [(200, 100), (300, 100), (100, 100)]
                      (processSleepButton HIGH (setup_sketch init)))) = 4"
proof -
  let ?s = "processSleepButton HIGH (setup_sketch init)"
  have c: "AcCount ?s = 0" by code_simp
  have t: "AcTotal ?s = 0" by code_simp
  have l: "length [(200, 100), (300, 100), (100 :: int16_t, 100 :: int16_t)] \<le> 32767" by simp
  show ?thesis
    using session_totals [OF c t l] c t by simp
qed

text \<open>
  Without the bound the claim fails: \<open>AcCount\<close> is an \<open>int\<close> of 16 bits. After the
  sleep button has started a session and 32768 passes of \<open>loop\<close> have each taken a
  sample, the mode is still Sleep and \<open>AcCount\<close> reads \<open>-32768\<close>.
\<close>

theorem sample_count_wraps:
  "mode (run (\<lparr>syncPin = LOW, sleepPin = HIGH, serialByte = None, accelX = 0, accelY = 0\<rparr>
          # replicate 32768
              \<lparr>syncPin = LOW, sleepPin = LOW, serialByte = None, accelX = 0, accelY = 0\<rparr>))
     = MODE_SLEEP
   \<and> sint (AcCount
        (run (\<lparr>syncPin = LOW, sleepPin = HIGH, serialByte = None, accelX = 0, accelY = 0\<rparr>
          # replicate 32768
              \<lparr>syncPin = LOW, sleepPin = LOW, serialByte = None, accelX = 0, accelY = 0\<rparr>)))
     = - 32768"
proof -
  let ?p = "\<lparr>syncPin = LOW, sleepPin = HIGH, serialByte = None, accelX = 0, accelY = 0\<rparr>"
  let ?q = "\<lparr>syncPin = LOW, sleepPin = LOW, serialByte = None, accelX = 0, accelY = 0\<rparr>"
  have m: "mode (run [?p]) = MODE_SLEEP" by code_simp
  have c: "AcCount (run [?p]) = 0" by code_simp
  have r: "run (?p # replicate 32768 ?q) = fold loop (replicate 32768 ?q) (run [?p])"
    by (simp add: run_def)
  have q: "sleepPin ?q = LOW" by simp
  show ?thesis
    using fold_loop_quiet [OF q m, of 32768] unfolding r by (simp add: c)
qed



text \<open>
  C5. When the sleep button is read high in Idle mode (the stored level being low),
  \<open>processSleepButton\<close> sets the mode to Sleep and clears \<open>AcStep\<close>, \<open>AcCount\<close> and
  \<open>AcTotal\<close> before it turns the sleep LED on: the stamp of that pin write already
  shows the three at zero. No sample is taken in the call, nor in the pass of
  \<open>idle()\<close> around it, so the session starts from zero.
\<close>

theorem entering_sleep_resets:
  assumes "mode s = MODE_NONE" and "prevSleepState s = LOW"
  shows "processSleepButton HIGH s =
           s\<lparr>mode := MODE_SLEEP, AcStep := 0, AcCount := 0, AcTotal := 0,
             trace := trace s @
               map (\<lambda>e. (e, \<lparr>mode = MODE_SLEEP, prevSyncState = prevSyncState s,
                                prevSleepState = prevSleepState s,
                                AcStep = 0, AcCount = 0, AcTotal = 0\<rparr>))
                 [DigitalWrite PIN_LED_SLEEP HIGH,
                  SerialPrintln ''<log message='LOG: Sleep button was pressed, sleep mode enabled'/>'',
                  Delay REST]\<rparr>
         \<and> idle LOW HIGH s = processSleepButton HIGH s"
  using assms
  by (simp add: processSleepButton_def processSyncButton_def idle_def io_defs Let_def mode_distinct
        level_distinct vars.truncate_def)

text \<open>
  Entering Sleep mode again after a session that has left 2, 2 and 3 in \<open>AcStep\<close>,
  \<open>AcCount\<close> and \<open>AcTotal\<close>: the three are zero after the call, and already zero
  in the stamp of the pin write that turns the sleep LED on.
\<close>

theorem entering_sleep_resets_witness:
  "mode (run [\<lparr>syncPin = LOW, sleepPin = HIGH, serialByte = None, accelX = 0, accelY = 0\<rparr>,
              \<lparr>syncPin = LOW, sleepPin = LOW, serialByte = None, accelX = 200, accelY = 100\<rparr>,
              \<lparr>syncPin = LOW, sleepPin = HIGH, serialByte = None, accelX = 300, accelY = 100\<rparr>])
     = MODE_NONE
   \<and> prevSleepState
        (run [\<lparr>syncPin = LOW, sleepPin = HIGH, serialByte = None, accelX = 0, accelY = 0\<rparr>,
              \<lparr>syncPin = LOW, sleepPin = LOW, serialByte = None, accelX = 200, accelY = 100\<rparr>,
              \<lparr>syncPin = LOW, sleepPin = HIGH, serialByte = None, accelX = 300, accelY = 100\<rparr>])
     = LOW
   \<and> vars.truncate
        (run [\<lparr>syncPin = LOW, sleepPin = HIGH, serialByte = None, accelX = 0, accelY = 0\<rparr>,
              \<lparr>syncPin = LOW, sleepPin = LOW, serialByte = None, accelX = 200, accelY = 100\<rparr>,
              \<lparr>syncPin = LOW, sleepPin = HIGH, serialByte = None, accelX = 300, accelY = 100\<rparr>])
     = \<lparr>mode = MODE_NONE, prevSyncState = LOW, prevSleepState = LOW,
        AcStep = 2, AcCount = 2, AcTotal = 3\<rparr>
   \<and> vars.truncate (processSleepButton HIGH
        (run [\<lparr>syncPin = LOW, sleepPin = HIGH, serialByte = None, accelX = 0, accelY = 0\<rparr>,
              \<lparr>syncPin = LOW, sleepPin = LOW, serialByte = None, accelX = 200, accelY = 100\<rparr>,
              \<lparr>syncPin = LOW, sleepPin = HIGH, serialByte = None, accelX = 300, accelY = 100\<rparr>]))
     = \<lparr>mode = MODE_SLEEP, prevSyncState = LOW, prevSleepState = LOW,
        AcStep = 0, AcCount = 0, AcTotal = 0\<rparr>
   \<and> drop (length (trace
        (run [\<lparr>syncPin = LOW, sleepPin = HIGH, serialByte = None, accelX = 0, accelY = 0\<rparr>,
              \<lparr>syncPin = LOW, sleepPin = LOW, serialByte = None, accelX = 200, accelY = 100\<rparr>,
              \<lparr>syncPin = LOW, sleepPin = HIGH, serialByte = None, accelX = 300, accelY = 100\<rparr>])))
        (trace (processSleepButton HIGH
        (run [\<lparr>syncPin = LOW, sleepPin = HIGH, serialByte = None, accelX = 0, accelY = 0\<rparr>,
              \<lparr>syncPin = LOW, sleepPin = LOW, serialByte = None, accelX = 200, accelY = 100\<rparr>,
              \<lparr>syncPin = LOW, sleepPin = HIGH, serialByte = None, accelX = 300, accelY = 100\<rparr>])))
     = [(DigitalWrite PIN_LED_SLEEP HIGH,
           \<lparr>mode = MODE_SLEEP, prevSyncState = LOW, prevSleepState = LOW,
            AcStep = 0, AcCount = 0, AcTotal = 0\<rparr>),
        (SerialPrintln ''<log message='LOG: Sleep button was pressed, sleep mode enabled'/>'',
           \<lparr>mode = MODE_SLEEP, prevSyncState = LOW, prevSleepState = LOW,
            AcStep = 0, AcCount = 0, AcTotal = 0\<rparr>),
        (Delay REST,
           \<lparr>mode = MODE_SLEEP, prevSyncState = LOW, prevSleepState = LOW,
            AcStep = 0, AcCount = 0, AcTotal = 0\<rparr>)]"
proof -
  let ?u = "run [\<lparr>syncPin = LOW, sleepPin = HIGH, serialByte = None, accelX = 0, accelY = 0\<rparr>,
              \<lparr>syncPin = LOW, sleepPin = LOW, serialByte = None, accelX = 200, accelY = 100\<rparr>,
              \<lparr>syncPin = LOW, sleepPin = HIGH, serialByte = None, accelX = 300, accelY = 100\<rparr>]"
  have m: "mode ?u = MODE_NONE" by code_simp
  have p: "prevSleepState ?u = LOW" by code_simp
  have q: "prevSyncState ?u = LOW" by code_simp
  have v: "vars.truncate ?u = \<lparr>mode = MODE_NONE, prevSyncState = LOW, prevSleepState = LOW,
        AcStep = 2, AcCount = 2, AcTotal = 3\<rparr>" by code_simp
  have e: "processSleepButton HIGH ?u =
           ?u\<lparr>mode := MODE_SLEEP, AcStep := 0, AcCount := 0, AcTotal := 0,
             trace := trace ?u @
               map (\<lambda>e. (e, \<lparr>mode = MODE_SLEEP, prevSyncState = prevSyncState ?u,
                                prevSleepState = prevSleepState ?u,
                                AcStep = 0, AcCount = 0, AcTotal = 0\<rparr>))
                 [DigitalWrite PIN_LED_SLEEP HIGH,
                  SerialPrintln ''<log message='LOG: Sleep button was pressed, sleep mode enabled'/>'',
                  Delay REST]\<rparr>"
    using entering_sleep_resets [OF m p] by (rule conjunct1)
  have a: "vars.truncate (processSleepButton HIGH ?u) =
      \<lparr>mode = MODE_SLEEP, prevSyncState = LOW, prevSleepState = LOW,
        AcStep = 0, AcCount = 0, AcTotal = 0\<rparr>"
    by (subst e) (simp add: vars.truncate_def p q)
  have b: "drop (length (trace ?u)) (trace (processSleepButton HIGH ?u)) =
      [(DigitalWrite PIN_LED_SLEEP HIGH,
           \<lparr>mode = MODE_SLEEP, prevSyncState = LOW, prevSleepState = LOW,
            AcStep = 0, AcCount = 0, AcTotal = 0\<rparr>),
        (SerialPrintln ''<log message='LOG: Sleep button was pressed, sleep mode enabled'/>'',
           \<lparr>mode = MODE_SLEEP, prevSyncState = LOW, prevSleepState = LOW,
            AcStep = 0, AcCount = 0, AcTotal = 0\<rparr>),
        (Delay REST,
           \<lparr>mode = MODE_SLEEP, prevSyncState = LOW, prevSleepState = LOW,
            AcStep = 0, AcCount = 0, AcTotal = 0\<rparr>)]"
    by (subst e) (simp add: p q)
  show ?thesis
    using m p v a b by blast
qed

text \<open>
  C6. Whatever the accumulator holds, \<open>sync()\<close> with the byte \<open>D\<close> pending does what
  the poll of the sync button does and then prints exactly: the note that the command
  was received, the note that the data is sent, the line \<open><cmd name='data'>\<close>, the
  summary line, and \<open></cmd>\<close>; it changes no variable beyond the poll. The summary
  line is \<open>SLEEP: duration=\<close>, the decimal text of \<open>AcCount\<close>, \<open>, activity=\<close> and the
  decimal text of \<open>AcTotal\<close>: with both at zero \<open>SLEEP: duration=0, activity=0\<close>, with
  3 and 4 \<open>SLEEP: duration=3, activity=4\<close>.
\<close>

theorem read_data_command:
  "map fst (trace (sync level (Some CHR ''D'') s)) =
     map fst (trace (processSyncButton level s)) @
       [SerialPrintln ''<log message='Received: Read data'>'',
        SerialPrintln ''<log message='Sending sleep data'/>'',
        SerialPrintln ''<cmd name='data'>'',
        SerialPrintln (''SLEEP: duration='' @ decimal (sint (AcCount s))
                         @ '', activity='' @ decimal (sint (AcTotal s))),
        SerialPrintln ''</cmd>'']
   \<and> vars.truncate (sync level (Some CHR ''D'') s) = vars.truncate (processSyncButton level s)
   \<and> summariseSleepData s =
       ''SLEEP: duration='' @ decimal (sint (AcCount s)) @ '', activity='' @ decimal (sint (AcTotal s))
   \<and> (AcCount s = 0 \<and> AcTotal s = 0 \<longrightarrow>
        map fst (trace (sync level (Some CHR ''D'') s)) =
          map fst (trace (processSyncButton level s)) @
            [SerialPrintln ''<log message='Received: Read data'>'',
             SerialPrintln ''<log message='Sending sleep data'/>'',
             SerialPrintln ''<cmd name='data'>'',
             SerialPrintln ''SLEEP: duration=0, activity=0'',
             SerialPrintln ''</cmd>''])
   \<and> (AcCount s = 3 \<and> AcTotal s = 4 \<longrightarrow>
        map fst (trace (sync level (Some CHR ''D'') s)) =
          map fst (trace (processSyncButton level s)) @
            [SerialPrintln ''<log message='Received: Read data'>'',
             SerialPrintln ''<log message='Sending sleep data'/>'',
             SerialPrintln ''<cmd name='data'>'',
             SerialPrintln ''SLEEP: duration=3, activity=4'',
             SerialPrintln ''</cmd>''])"
proof -
  let ?t = "Serial_println ''<log message='Received: Read data'>'' (processSyncButton level s)"
  let ?line = "''SLEEP: duration='' @ decimal (sint (AcCount s))
                 @ '', activity='' @ decimal (sint (AcTotal s))"
  have sum: "summariseSleepData s = ?line"
    by (simp add: summariseSleepData_def)
  have "summariseSleepData ?t = summariseSleepData s"
    by (rule summariseSleepData_cong) (simp_all add: io_defs)
  then have "map fst (trace (sendData ?t)) = map fst (trace (processSyncButton level s)) @
       [SerialPrintln ''<log message='Received: Read data'>'',
        SerialPrintln ''<log message='Sending sleep data'/>'',
        SerialPrintln ''<cmd name='data'>'',
        SerialPrintln ?line,
        SerialPrintln ''</cmd>'']"
    by (simp add: trace_sendData sum) (simp add: io_defs)
  then have tr: "map fst (trace (sync level (Some CHR ''D'') s)) =
       map fst (trace (processSyncButton level s)) @
       [SerialPrintln ''<log message='Received: Read data'>'',
        SerialPrintln ''<log message='Sending sleep data'/>'',
        SerialPrintln ''<cmd name='data'>'',
        SerialPrintln ?line,
        SerialPrintln ''</cmd>'']"
    by (simp add: sync_def Let_def)
  have "vars.truncate (sendData ?t) = vars.truncate (processSyncButton level s)"
    by (simp add: vars_sendData) (simp add: io_defs vars.truncate_def)
  then have vs: "vars.truncate (sync level (Some CHR ''D'') s)
      = vars.truncate (processSyncButton level s)"
    by (simp add: sync_def Let_def)
  have z: "AcCount s = 0 \<and> AcTotal s = 0 \<longrightarrow> ?line = ''SLEEP: duration=0, activity=0''"
    by (simp add: decimal_def digits.simps)
  have n: "AcCount s = 3 \<and> AcTotal s = 4 \<longrightarrow> ?line = ''SLEEP: duration=3, activity=4''"
    by (simp add: decimal_def digits.simps)
  show ?thesis
    apply (intro conjI)
        apply (rule tr)
       apply (rule vs)
      apply (rule sum)
    using tr z apply simp
    using tr n apply simp
    done
qed

text \<open>
  The command in Sync mode after a session that has left 3 and 15 in the accumulator:
  the reply carries \<open>SLEEP: duration=3, activity=15\<close>.
\<close>

theorem read_data_command_witness:
  "AcCount (run
     [\<lparr>syncPin = LOW, sleepPin = HIGH, serialByte = None, accelX = 0, accelY = 0\<rparr>,
      \<lparr>syncPin = LOW, sleepPin = LOW, serialByte = None, accelX = 200, accelY = 100\<rparr>,
      \<lparr>syncPin = LOW, sleepPin = LOW, serialByte = None, accelX = 300, accelY = 100\<rparr>,
      \<lparr>syncPin = LOW, sleepPin = HIGH, serialByte = None, accelX = 1500, accelY = - 900\<rparr>,
      \<lparr>syncPin = HIGH, sleepPin = LOW, serialByte = None, accelX = 0, accelY = 0\<rparr>]) = 3
   \<and> AcTotal (run
     [\<lparr>syncPin = LOW, sleepPin = HIGH, serialByte = None, accelX = 0, accelY = 0\<rparr>,
      \<lparr>syncPin = LOW, sleepPin = LOW, serialByte = None, accelX = 200, accelY = 100\<rparr>,
      \<lparr>syncPin = LOW, sleepPin = LOW, serialByte = None, accelX = 300, accelY = 100\<rparr>,
      \<lparr>syncPin = LOW, sleepPin = HIGH, serialByte = None, accelX = 1500, accelY = - 900\<rparr>,
      \<lparr>syncPin = HIGH, sleepPin = LOW, serialByte = None, accelX = 0, accelY = 0\<rparr>]) = 15
   \<and> drop 16 (map fst (trace (sync LOW (Some CHR ''D'') (run
     [\<lparr>syncPin = LOW, sleepPin = HIGH, serialByte = None, accelX = 0, accelY = 0\<rparr>,
      \<lparr>syncPin = LOW, sleepPin = LOW, serialByte = None, accelX = 200, accelY = 100\<rparr>,
      \<lparr>syncPin = LOW, sleepPin = LOW, serialByte = None, accelX = 300, accelY = 100\<rparr>,
      \<lparr>syncPin = LOW, sleepPin = HIGH, serialByte = None, accelX = 1500, accelY = - 900\<rparr>,
      \<lparr>syncPin = HIGH, sleepPin = LOW, serialByte = None, accelX = 0, accelY = 0\<rparr>]))))
     = [SerialPrintln ''<log message='LOG: Sync button was pressed, sync mode enabled'/>'',
        Delay REST,
        SerialPrintln ''<log message='Received: Read data'>'',
        SerialPrintln ''<log message='Sending sleep data'/>'',
        SerialPrintln ''<cmd name='data'>'',
        SerialPrintln ''SLEEP: duration=3, activity=15'',
        SerialPrintln ''</cmd>'']"
proof -
  let ?r = "run
     [\<lparr>syncPin = LOW, sleepPin = HIGH, serialByte = None, accelX = 0, accelY = 0\<rparr>,
      \<lparr>syncPin = LOW, sleepPin = LOW, serialByte = None, accelX = 200, accelY = 100\<rparr>,
      \<lparr>syncPin = LOW, sleepPin = LOW, serialByte = None, accelX = 300, accelY = 100\<rparr>,
      \<lparr>syncPin = LOW, sleepPin = HIGH, serialByte = None, accelX = 1500, accelY = - 900\<rparr>,
      \<lparr>syncPin = HIGH, sleepPin = LOW, serialByte = None, accelX = 0, accelY = 0\<rparr>]"
  have c: "AcCount ?r = 3" by code_simp
  have t: "AcTotal ?r = 15" by code_simp
  have h: "drop 16 (map fst (trace ?r)) =
      [SerialPrintln ''<log message='LOG: Sync button was pressed, sync mode enabled'/>'',
       Delay REST]" by code_simp
  have l: "length (map fst (trace ?r)) = 18" by code_simp
  have d: "decimal 3 = ''3'' \<and> decimal 15 = ''15''"
    by (simp add: decimal_def digits.simps)
  have "map fst (trace (sync LOW (Some CHR ''D'') ?r)) =
     map fst (trace ?r) @
       [SerialPrintln ''<log message='Received: Read data'>'',
        SerialPrintln ''<log message='Sending sleep data'/>'',
        SerialPrintln ''<cmd name='data'>'',
        SerialPrintln ''SLEEP: duration=3, activity=15'',
        SerialPrintln ''</cmd>'']"
    using read_data_command [of LOW ?r, THEN conjunct1] by (simp add: c t d)
  then show ?thesis
    using c t h l by simp
qed

text \<open>
  C7. In the sketch that logs to the SD card, \<open>sync()\<close> with the byte \<open>R\<close> pending
  does what the poll of the sync button does, prints the note that the command was
  received and the note of \<open>resetDevice\<close>, calls \<open>SD.remove\<close> on the log file, and
  prints the error line exactly when the removal fails. In the console-only sketch,
  which keeps no file, \<open>resetDevice\<close> is a dummy and only the first note is printed.
\<close>

theorem reset_command:
  "trace_sd (sync_sd c level (Some CHR ''R'') s) =
     trace_sd (processSyncButton_sd c level s) @
       [SerialPrintln_sd ''<log message='Received: Reset device'>'',
        SerialPrintln_sd ''<log message='Reset SD card data'/>'',
        Remove_sd LOG_FILE] @
       (if removed c then [] else [SerialPrintln_sd ''<log message='Error deleting LOG.TXT...'/>''])
   \<and> (SerialPrintln_sd ''<log message='Error deleting LOG.TXT...'/>''
         \<in> set (drop (length (trace_sd (processSyncButton_sd c level s)))
                  (trace_sd (sync_sd c level (Some CHR ''R'') s)))
        \<longleftrightarrow> \<not> removed c)
   \<and> sync level (Some CHR ''R'') t =
       Serial_println ''<log message='Received: Reset device'>'' (processSyncButton level t)"
  by (simp add: sync_sd_def resetDevice_sd_def emit_sd_def Let_def sync_def resetDevice_def)

text \<open>The command in Sync mode, once with a removal that fails and once with one that succeeds.\<close>

theorem reset_command_witness:
  "trace_sd (sync_sd \<lparr>openWrite = True, openRead = None, removed = False\<rparr> LOW (Some CHR ''R'')
       (init_sd\<lparr>mode_sd := MODE_SYNC\<rparr>)) =
     [SerialPrintln_sd ''<log message='Received: Reset device'>'',
      SerialPrintln_sd ''<log message='Reset SD card data'/>'',
      Remove_sd ''LOG.TXT'',
      SerialPrintln_sd ''<log message='Error deleting LOG.TXT...'/>'']
   \<and> trace_sd (sync_sd \<lparr>openWrite = True, openRead = None, removed = True\<rparr> LOW (Some CHR ''R'')
       (init_sd\<lparr>mode_sd := MODE_SYNC\<rparr>)) =
     [SerialPrintln_sd ''<log message='Received: Reset device'>'',
      SerialPrintln_sd ''<log message='Reset SD card data'/>'',
      Remove_sd ''LOG.TXT'']"
proof -
  have p: "trace_sd (processSyncButton_sd c LOW (init_sd\<lparr>mode_sd := MODE_SYNC\<rparr>)) = []" for c
    by (simp add: processSyncButton_sd_def init_sd_def level_distinct)
  show ?thesis
    using reset_command [of "\<lparr>openWrite = True, openRead = None, removed = False\<rparr>" LOW
            "init_sd\<lparr>mode_sd := MODE_SYNC\<rparr>" "setup_sketch init"]
          reset_command [of "\<lparr>openWrite = True, openRead = None, removed = True\<rparr>" LOW
            "init_sd\<lparr>mode_sd := MODE_SYNC\<rparr>" "setup_sketch init"]
    by (simp add: p LOG_FILE_def)
qed

text \<open>
  C8. A pending byte other than \<open>D\<close> and \<open>R\<close> adds nothing to a pass of \<open>sync()\<close>:
  the machine, history included, is what the poll of the sync button alone leaves,
  and it is unchanged when the button is read low.
\<close>

theorem unknown_command_ignored:
  assumes "character \<noteq> CHR ''D''" and "character \<noteq> CHR ''R''"
  shows "sync level (Some character) s = processSyncButton level s
         \<and> sync level (Some character) s = sync level None s
         \<and> sync LOW (Some character) s = s"
  using assms by (simp add: sync_def Let_def)

text \<open>The byte \<open>X\<close> in Sync mode.\<close>

theorem unknown_command_ignored_witness:
  "CHR ''X'' \<noteq> CHR ''D'' \<and> CHR ''X'' \<noteq> CHR ''R''
   \<and> sync LOW (Some CHR ''X'') (processSyncButton HIGH (setup_sketch init))
       = processSyncButton HIGH (setup_sketch init)"
proof -
  have a: "CHR ''X'' \<noteq> CHR ''D''" by simp
  have b: "CHR ''X'' \<noteq> CHR ''R''" by simp
  show ?thesis
    using unknown_command_ignored [OF a b, of LOW "processSyncButton HIGH (setup_sketch init)"]
    by simp
qed

text \<open>
  C9. The claim is that the command \<open>D\<close>, given in Sync mode after a session has
  ended, reports the counts of that session. The frame part holds (lemma
  \<open>accumulator_frame\<close>). But \<open>sleep()\<close> calls \<open>processSleepData\<close> after
  \<open>processSleepButton\<close> whatever the button did, so the pass that ends the session
  takes one more sample with the mode already \<open>MODE_NONE\<close>. Evaluated on a session
  of three samples: the summary logged on leaving is \<open>duration=3, activity=4\<close>, the
  reply to \<open>D\<close> is \<open>duration=4, activity=5\<close>.
\<close>

theorem trailing_sample_after_leaving:
  "console (run
     [\<lparr>syncPin = LOW, sleepPin = HIGH, serialByte = None, accelX = 0, accelY = 0\<rparr>,
      \<lparr>syncPin = LOW, sleepPin = LOW, serialByte = None, accelX = 200, accelY = 100\<rparr>,
      \<lparr>syncPin = LOW, sleepPin = LOW, serialByte = None, accelX = 300, accelY = 100\<rparr>,
      \<lparr>syncPin = LOW, sleepPin = LOW, serialByte = None, accelX = 100, accelY = 100\<rparr>,
      \<lparr>syncPin = LOW, sleepPin = HIGH, serialByte = None, accelX = 100, accelY = 100\<rparr>,
      \<lparr>syncPin = HIGH, sleepPin = LOW, serialByte = None, accelX = 0, accelY = 0\<rparr>,
      \<lparr>syncPin = LOW, sleepPin = LOW, serialByte = Some CHR ''D'', accelX = 0, accelY = 0\<rparr>])
   = [''<log message='LOG: Sleep button was pressed, sleep mode enabled'/>'',
      ''<log message='LOG: Sleep button was pressed, sleep mode disabled'/>'',
      ''<log message='SLEEP: duration=3, activity=4'/>'',
      ''<log message='LOG: Sync button was pressed, sync mode enabled'/>'',
      ''<log message='Received: Read data'>'',
      ''<log message='Sending sleep data'/>'',
      ''<cmd name='data'>'',
      ''SLEEP: duration=4, activity=5'',
      ''</cmd>'']"
  by code_simp

text \<open>
  C10. For all sensor words X and Y the step \<open>processSleepData\<close> computes, read as a
  signed number, lies between 0 and 327, and it is the value written to the activity
  output. The words \<open>-32768\<close> are divided before they are negated and give 327.
\<close>

theorem step_range:
  "0 \<le> sint (AcStep (processSleepData x y s))
   \<and> sint (AcStep (processSleepData x y s)) \<le> 327
   \<and> map fst (trace (processSleepData x y s)) =
       map fst (trace s) @
         [AnalogWrite PIN_LED_ACTIVE (AcStep (processSleepData x y s)), Delay REST]
   \<and> sint (AcStep (processSleepData (- 32768) (- 32768) s)) = 327"
proof -
  have "0 \<le> step_of (sint x) (sint y) \<and> step_of (sint x) (sint y) \<le> 327"
    using sint16_range [of x] sint16_range [of y] by (intro step_of_range) simp_all
  moreover have "map fst (trace (processSleepData x y s)) =
       map fst (trace s) @
         [AnalogWrite PIN_LED_ACTIVE (AcStep (processSleepData x y s)), Delay REST]"
    by (simp add: processSleepData_def io_defs Let_def)
  moreover have "step_of (sint (- 32768 :: 16 word)) (sint (- 32768 :: 16 word)) = 327"
    by (simp add: step_of_def signed_divide_int_def)
  ultimately show ?thesis
    by (simp add: sint_AcStep)
qed

text \<open>The bound is attained, and met by a negative reading.\<close>

theorem step_range_witness:
  "sint (AcStep (processSleepData (- 32768) 32767 (setup_sketch init))) = 327
   \<and> sint (AcStep (processSleepData 200 100 (setup_sketch init))) = 1
   \<and> 0 \<le> sint (AcStep (processSleepData (- 250) 99 (setup_sketch init)))
   \<and> sint (AcStep (processSleepData (- 250) 99 (setup_sketch init))) \<le> 327"
proof -
  have a: "sint (AcStep (processSleepData (- 32768) 32767 (setup_sketch init))) = 327"
    by code_simp
  have b: "sint (AcStep (processSleepData 200 100 (setup_sketch init))) = 1"
    by code_simp
  show ?thesis
    using step_range [of "- 250" 99 "setup_sketch init"] a b by simp
qed

end
